theory Spec2Isabelle
  imports Main
begin

section \<open>The ticket tracker: data model\<close>

text \<open>
  The sources are \<^verbatim>\<open>app/models/ticket.py\<close> (the ORM entity),
  \<^verbatim>\<open>app/schemas/ticket.py\<close> (the pydantic shapes),
  \<^verbatim>\<open>app/services/ticket_service.py\<close> (the service layer) and
  \<^verbatim>\<open>app/routes/ticket_routes.py\<close> (the route layer).
  Field names are shared between the classes as they are in the source, so every
  selector below is written with its record's name in front.
\<close>

subsection \<open>Schemas (\<^verbatim>\<open>app/schemas/ticket.py\<close>)\<close>

text \<open>
  \<^verbatim>\<open>class TicketBase(BaseModel): title: str; description: str\<close> and
  \<^verbatim>\<open>class TicketCreate(TicketBase): pass\<close>.
\<close>

record TicketBase =
  title :: string
  description :: string

type_synonym TicketCreate = TicketBase

text \<open>
  \<^verbatim>\<open>class TicketOut(TicketBase): id: int; status: str\<close>: no field of the output
  shape admits \<^verbatim>\<open>None\<close>.
\<close>

record TicketOut = TicketBase +
  id :: int
  status :: string

text \<open>
  \<^verbatim>\<open>class TicketUpdate(BaseModel)\<close>: three fields of type \<^verbatim>\<open>str | None\<close> with
  default \<^verbatim>\<open>None\<close>. A pydantic model also remembers which fields the input gave
  (\<^verbatim>\<open>model_fields_set\<close>); that is what \<^verbatim>\<open>exclude_unset\<close> reads.
\<close>

record TicketUpdate =
  title :: "string option"
  description :: "string option"
  status :: "string option"
  fields_set :: "string set"

subsection \<open>The entity (\<^verbatim>\<open>app/models/ticket.py\<close>)\<close>

text \<open>
  \<^verbatim>\<open>class Ticket(Base)\<close> has four columns. None of the three text columns is declared
  \<^verbatim>\<open>nullable=False\<close>, and a freshly constructed object has no \<^verbatim>\<open>id\<close> yet, so every
  attribute can hold \<^verbatim>\<open>None\<close>.
\<close>

record Ticket =
  id :: "int option"
  title :: "string option"
  description :: "string option"
  status :: "string option"

text \<open>The column default of \<^verbatim>\<open>status\<close>: \<^verbatim>\<open>Column(String, default="open")\<close>.\<close>

definition status_default :: string where
  "status_default = ''open''"

text \<open>
  \<^verbatim>\<open>setattr(obj, field, value)\<close> on a \<^verbatim>\<open>Ticket\<close>, for the values the schemas can
  carry (a string or \<^verbatim>\<open>None\<close>). A name that is no column of the table creates a
  plain Python attribute, which is never written to the row.
\<close>

definition setattr :: "Ticket \<Rightarrow> string \<Rightarrow> string option \<Rightarrow> Ticket" where
  "setattr obj field v =
     (if field = ''title'' then obj\<lparr>Ticket.title := v\<rparr>
      else if field = ''description'' then obj\<lparr>Ticket.description := v\<rparr>
      else if field = ''status'' then obj\<lparr>Ticket.status := v\<rparr>
      else obj)"

text \<open>
  \<^verbatim>\<open>Ticket(**kwargs)\<close>: the declarative constructor sets the attributes named by the
  keyword arguments and leaves the others \<^verbatim>\<open>None\<close>.
\<close>

definition Ticket_init :: "(string \<times> string option) list \<Rightarrow> Ticket" where
  "Ticket_init kwargs =
     foldl (\<lambda>obj (field, v). setattr obj field v)
       \<lparr>Ticket.id = None, Ticket.title = None, Ticket.description = None, Ticket.status = None\<rparr>
       kwargs"

text \<open>\<^verbatim>\<open>TicketCreate.model_dump()\<close>: every field, in declaration order.\<close>

definition TicketCreate_model_dump :: "TicketCreate \<Rightarrow> (string \<times> string option) list" where
  "TicketCreate_model_dump ticket =
     [(''title'', Some (TicketBase.title ticket)),
      (''description'', Some (TicketBase.description ticket))]"

text \<open>
  \<^verbatim>\<open>TicketUpdate.model_dump(exclude_unset=True)\<close>: the fields the input gave, in
  declaration order, each with its value, \<^verbatim>\<open>None\<close> included.
\<close>

definition TicketUpdate_model_dump_exclude_unset ::
  "TicketUpdate \<Rightarrow> (string \<times> string option) list" where
  "TicketUpdate_model_dump_exclude_unset ticket =
     filter (\<lambda>(field, v). field \<in> fields_set ticket)
       [(''title'', TicketUpdate.title ticket),
        (''description'', TicketUpdate.description ticket),
        (''status'', TicketUpdate.status ticket)]"

section \<open>The record store\<close>

text \<open>
  Modelled from the spec: the store handle \<^verbatim>\<open>SessionLocal\<close> of \<^verbatim>\<open>app/database.py\<close>,
  which is not among the sources, and the database engine behind it. The spec gives one
  table with the columns \<^verbatim>\<open>id, title, description, status\<close> and \<^verbatim>\<open>id\<close> as primary
  key; an \<^verbatim>\<open>id\<close> is an integer, unique, assigned by the store on creation and never
  reused. The table is the list of its rows in insertion order, and the store keeps the
  next \<^verbatim>\<open>id\<close> it will hand out, which only grows. The definitions of this section
  are the calls that the service layer makes on the handle.
\<close>

record Session =
  tickets :: "Ticket list"
  next_id :: int

definition empty_store :: Session where
  "empty_store = \<lparr>tickets = [], next_id = 1\<rparr>"

datatype exn =
  HTTPException int string
  | InvalidRequestError
  | RequestValidationError
  | ResponseValidationError

text \<open>\<^verbatim>\<open>db.query(Ticket).all()\<close>\<close>

definition query_all :: "Session \<Rightarrow> Ticket list" where
  "query_all db = tickets db"

text \<open>\<^verbatim>\<open>db.query(Ticket).filter(Ticket.id == ticket_id).first()\<close>\<close>

definition query_filter_id_first :: "Session \<Rightarrow> int \<Rightarrow> Ticket option" where
  "query_filter_id_first db ticket_id =
     find (\<lambda>row. Ticket.id row = Some ticket_id) (tickets db)"

text \<open>
  \<^verbatim>\<open>db.add(obj); db.commit()\<close>: one \<^verbatim>\<open>INSERT\<close>. An object without primary key gets
  the next one from the store; a column left \<^verbatim>\<open>None\<close> that has a default gets the
  default. The object comes back with its primary key set.
\<close>

definition add_commit :: "Session \<Rightarrow> Ticket \<Rightarrow> Ticket \<times> Session" where
  "add_commit db obj =
     (let row = obj\<lparr>Ticket.id := (case Ticket.id obj of None \<Rightarrow> Some (next_id db) | Some k \<Rightarrow> Some k),
                    Ticket.status := (case Ticket.status obj of None \<Rightarrow> Some status_default
                                      | Some s \<Rightarrow> Some s)\<rparr>
      in (row, db\<lparr>tickets := tickets db @ [row],
                  next_id := (case Ticket.id obj of None \<Rightarrow> next_id db + 1 | Some k \<Rightarrow> next_id db)\<rparr>))"

text \<open>
  \<^verbatim>\<open>db.commit()\<close> with a changed persistent object: one \<^verbatim>\<open>UPDATE ... WHERE id = pk\<close>
  that writes the object's attributes to its row.
\<close>

definition commit_dirty :: "Session \<Rightarrow> Ticket \<Rightarrow> Session" where
  "commit_dirty db obj =
     db\<lparr>tickets := map (\<lambda>row. if Ticket.id row = Ticket.id obj then obj else row) (tickets db)\<rparr>"

text \<open>\<^verbatim>\<open>db.delete(obj); db.commit()\<close>: one \<^verbatim>\<open>DELETE ... WHERE id = pk\<close>.\<close>

definition delete_commit :: "Session \<Rightarrow> Ticket \<Rightarrow> Session" where
  "delete_commit db obj =
     db\<lparr>tickets := filter (\<lambda>row. Ticket.id row \<noteq> Ticket.id obj) (tickets db)\<rparr>"

text \<open>
  \<^verbatim>\<open>db.refresh(obj)\<close>: reads the row of the object's primary key again, and raises
  when there is no such row.
\<close>

definition refresh :: "Session \<Rightarrow> Ticket \<Rightarrow> exn + Ticket" where
  "refresh db obj =
     (case Ticket.id obj of
        None \<Rightarrow> Inl InvalidRequestError
      | Some pk \<Rightarrow>
          (case find (\<lambda>row. Ticket.id row = Some pk) (tickets db) of
             None \<Rightarrow> Inl InvalidRequestError
           | Some row \<Rightarrow> Inr row))"

section \<open>The service layer (\<^verbatim>\<open>app/services/ticket_service.py\<close>)\<close>

definition get_all_tickets :: "Session \<Rightarrow> Ticket list" where
  "get_all_tickets db = query_all db"

definition get_ticket :: "Session \<Rightarrow> int \<Rightarrow> Ticket option" where
  "get_ticket db ticket_id = query_filter_id_first db ticket_id"

definition create_ticket :: "Session \<Rightarrow> TicketCreate \<Rightarrow> (exn + Ticket) \<times> Session" where
  "create_ticket db ticket =
     (let db_ticket = Ticket_init (TicketCreate_model_dump ticket);
          (db_ticket, db) = add_commit db db_ticket
      in (refresh db db_ticket, db))"

text \<open>
  \<^verbatim>\<open>if not db_ticket: return None\<close>: an entity is always truthy, so the test is the
  test for \<^verbatim>\<open>None\<close>. The loop over \<^verbatim>\<open>.items()\<close> is a left fold of \<^verbatim>\<open>setattr\<close>.
\<close>

definition update_ticket ::
  "Session \<Rightarrow> int \<Rightarrow> TicketUpdate \<Rightarrow> (exn + Ticket option) \<times> Session" where
  "update_ticket db ticket_id ticket =
     (case get_ticket db ticket_id of
        None \<Rightarrow> (Inr None, db)
      | Some db_ticket \<Rightarrow>
          (let db_ticket = foldl (\<lambda>obj (field, v). setattr obj field v) db_ticket
                             (TicketUpdate_model_dump_exclude_unset ticket);
               db = commit_dirty db db_ticket
           in (case refresh db db_ticket of
                 Inl e \<Rightarrow> (Inl e, db)
               | Inr db_ticket \<Rightarrow> (Inr (Some db_ticket), db))))"

definition delete_ticket :: "Session \<Rightarrow> int \<Rightarrow> Ticket option \<times> Session" where
  "delete_ticket db ticket_id =
     (case get_ticket db ticket_id of
        None \<Rightarrow> (None, db)
      | Some db_ticket \<Rightarrow> (Some db_ticket, delete_commit db db_ticket))"

section \<open>The route layer (\<^verbatim>\<open>app/routes/ticket_routes.py\<close>)\<close>

subsection \<open>Request bodies and their validation\<close>

text \<open>
  A request body is a JSON object, which the framework hands to the schema as a
  dictionary from keys to JSON values.
\<close>

datatype json =
  JNull
  | JBool bool
  | JNumber int
  | JString string
  | JArray "json list"
  | JObject "(string \<times> json) list"

text \<open>A required field declared \<^verbatim>\<open>str\<close>: it must be there and be a string.\<close>

fun validate_str :: "json option \<Rightarrow> exn + string" where
  "validate_str (Some (JString s)) = Inr s"
| "validate_str _ = Inl RequestValidationError"

text \<open>
  A field declared \<^verbatim>\<open>str | None = None\<close>: it may be missing (the default applies),
  \<^verbatim>\<open>null\<close> or a string.
\<close>

fun validate_optional_str :: "json option \<Rightarrow> exn + string option" where
  "validate_optional_str None = Inr None"
| "validate_optional_str (Some JNull) = Inr None"
| "validate_optional_str (Some (JString s)) = Inr (Some s)"
| "validate_optional_str _ = Inl RequestValidationError"

text \<open>Keys that are no field of the schema are ignored.\<close>

definition TicketCreate_validate :: "(string \<rightharpoonup> json) \<Rightarrow> exn + TicketCreate" where
  "TicketCreate_validate body =
     (case (validate_str (body ''title''), validate_str (body ''description'')) of
        (Inr t, Inr d) \<Rightarrow> Inr \<lparr>TicketBase.title = t, TicketBase.description = d\<rparr>
      | _ \<Rightarrow> Inl RequestValidationError)"

definition TicketUpdate_validate :: "(string \<rightharpoonup> json) \<Rightarrow> exn + TicketUpdate" where
  "TicketUpdate_validate body =
     (case (validate_optional_str (body ''title''),
            validate_optional_str (body ''description''),
            validate_optional_str (body ''status'')) of
        (Inr t, Inr d, Inr s) \<Rightarrow>
          Inr \<lparr>TicketUpdate.title = t, TicketUpdate.description = d, TicketUpdate.status = s,
               fields_set = {field \<in> {''title'', ''description'', ''status''}. body field \<noteq> None}\<rparr>
      | _ \<Rightarrow> Inl RequestValidationError)"

subsection \<open>Responses\<close>

datatype content =
  TicketJSON TicketOut
  | TicketListJSON "TicketOut list"
  | DetailJSON string
  | ValidationErrorJSON
  | InternalServerError

record Response =
  status_code :: int
  body :: content

text \<open>
  \<^verbatim>\<open>response_model=TicketOut\<close> with \<^verbatim>\<open>from_attributes\<close>: the returned entity is read
  attribute by attribute into the output shape, whose fields are \<^verbatim>\<open>int\<close> and \<^verbatim>\<open>str\<close>.
\<close>

definition TicketOut_from_attributes :: "Ticket \<Rightarrow> exn + TicketOut" where
  "TicketOut_from_attributes obj =
     (case (Ticket.id obj, Ticket.title obj, Ticket.description obj, Ticket.status obj) of
        (Some i, Some t, Some d, Some s) \<Rightarrow>
          Inr \<lparr>TicketBase.title = t, TicketBase.description = d, TicketOut.id = i, TicketOut.status = s\<rparr>
      | _ \<Rightarrow> Inl ResponseValidationError)"

text \<open>
  What the framework sends for the outcome of a route function: an \<^verbatim>\<open>HTTPException\<close>
  becomes its status code with the body \<^verbatim>\<open>{"detail": ...}\<close>, a request that fails
  validation becomes 422, any other exception becomes 500, and a returned entity is
  sent through the response model under the route's success code.
\<close>

fun respond :: "int \<Rightarrow> exn + Ticket \<Rightarrow> Response" where
  "respond code (Inl (HTTPException c detail)) = \<lparr>status_code = c, body = DetailJSON detail\<rparr>"
| "respond code (Inl RequestValidationError) = \<lparr>status_code = 422, body = ValidationErrorJSON\<rparr>"
| "respond code (Inl e) = \<lparr>status_code = 500, body = InternalServerError\<rparr>"
| "respond code (Inr obj) =
     (case TicketOut_from_attributes obj of
        Inl e \<Rightarrow> \<lparr>status_code = 500, body = InternalServerError\<rparr>
      | Inr out \<Rightarrow> \<lparr>status_code = code, body = TicketJSON out\<rparr>)"

subsection \<open>The route functions\<close>

text \<open>
  Each takes the arguments the framework has already validated and the store handle of
  the request. \<^verbatim>\<open>if not ticket\<close> is the test for \<^verbatim>\<open>None\<close>.
\<close>

definition create :: "TicketCreate \<Rightarrow> Session \<Rightarrow> (exn + Ticket) \<times> Session" where
  "create ticket db = create_ticket db ticket"

definition list_all_route :: "Session \<Rightarrow> Ticket list" where
  "list_all_route db = get_all_tickets db"

definition get :: "int \<Rightarrow> Session \<Rightarrow> exn + Ticket" where
  "get ticket_id db =
     (case get_ticket db ticket_id of
        None \<Rightarrow> Inl (HTTPException 404 ''Ticket not found'')
      | Some ticket \<Rightarrow> Inr ticket)"

definition update :: "int \<Rightarrow> TicketUpdate \<Rightarrow> Session \<Rightarrow> (exn + Ticket) \<times> Session" where
  "update ticket_id ticket db =
     (case update_ticket db ticket_id ticket of
        (Inl e, db) \<Rightarrow> (Inl e, db)
      | (Inr None, db) \<Rightarrow> (Inl (HTTPException 404 ''Ticket not found''), db)
      | (Inr (Some updated), db) \<Rightarrow> (Inr updated, db))"

definition delete :: "int \<Rightarrow> Session \<Rightarrow> (exn + Ticket) \<times> Session" where
  "delete ticket_id db =
     (case delete_ticket db ticket_id of
        (None, db) \<Rightarrow> (Inl (HTTPException 404 ''Ticket not found''), db)
      | (Some deleted, db) \<Rightarrow> (Inr deleted, db))"

subsection \<open>The routes as the router declares them\<close>

text \<open>
  \<^verbatim>\<open>@router.post("/", response_model=TicketOut, status_code=201)\<close>; the other routes
  declare no status code, so they answer 200. A body that fails validation never
  reaches the route function.
\<close>

definition POST_tickets :: "(string \<rightharpoonup> json) \<Rightarrow> Session \<Rightarrow> Response \<times> Session" where
  "POST_tickets request_body db =
     (case TicketCreate_validate request_body of
        Inl e \<Rightarrow> (respond 201 (Inl e), db)
      | Inr ticket \<Rightarrow> (let (result, db) = create ticket db in (respond 201 result, db)))"

text \<open>
  \<^verbatim>\<open>response_model=list[TicketOut]\<close>: every element goes through the output shape, and
  one element that fails it fails the whole response.
\<close>

fun TicketOut_list :: "Ticket list \<Rightarrow> exn + TicketOut list" where
  "TicketOut_list [] = Inr []"
| "TicketOut_list (obj # objs) =
     (case TicketOut_from_attributes obj of
        Inl e \<Rightarrow> Inl e
      | Inr out \<Rightarrow> (case TicketOut_list objs of Inl e \<Rightarrow> Inl e | Inr outs \<Rightarrow> Inr (out # outs)))"

definition GET_tickets :: "Session \<Rightarrow> Response" where
  "GET_tickets db =
     (case TicketOut_list (list_all_route db) of
        Inl e \<Rightarrow> \<lparr>status_code = 500, body = InternalServerError\<rparr>
      | Inr outs \<Rightarrow> \<lparr>status_code = 200, body = TicketListJSON outs\<rparr>)"

definition GET_ticket :: "int \<Rightarrow> Session \<Rightarrow> Response" where
  "GET_ticket ticket_id db = respond 200 (get ticket_id db)"

definition PUT_ticket :: "int \<Rightarrow> (string \<rightharpoonup> json) \<Rightarrow> Session \<Rightarrow> Response \<times> Session" where
  "PUT_ticket ticket_id request_body db =
     (case TicketUpdate_validate request_body of
        Inl e \<Rightarrow> (respond 200 (Inl e), db)
      | Inr ticket \<Rightarrow> (let (result, db) = update ticket_id ticket db in (respond 200 result, db)))"

definition DELETE_ticket :: "int \<Rightarrow> Session \<Rightarrow> Response \<times> Session" where
  "DELETE_ticket ticket_id db = (let (result, db) = delete ticket_id db in (respond 200 result, db))"

section \<open>Runs of service operations\<close>

datatype op = Create TicketCreate | Update int TicketUpdate | Delete int

fun apply_op :: "Session \<Rightarrow> op \<Rightarrow> Session" where
  "apply_op db (Create ticket) = snd (create_ticket db ticket)"
| "apply_op db (Update ticket_id ticket) = snd (update_ticket db ticket_id ticket)"
| "apply_op db (Delete ticket_id) = snd (delete_ticket db ticket_id)"

fun run :: "Session \<Rightarrow> op list \<Rightarrow> Session" where
  "run db [] = db"
| "run db (x # xs) = run (apply_op db x) xs"

text \<open>The primary keys that the creations of a run return, in order.\<close>

fun created_ids :: "Session \<Rightarrow> op list \<Rightarrow> int list" where
  "created_ids db [] = []"
| "created_ids db (Create ticket # xs) =
     (case fst (create_ticket db ticket) of
        Inr t \<Rightarrow> (case Ticket.id t of Some k \<Rightarrow> [k] | None \<Rightarrow> [])
      | Inl e \<Rightarrow> [])
     @ created_ids (apply_op db (Create ticket)) xs"
| "created_ids db (x # xs) = created_ids (apply_op db x) xs"

text \<open>The invariant of the data model: no attribute of a persisted ticket is null.\<close>

definition non_null :: "Ticket \<Rightarrow> bool" where
  "non_null t \<longleftrightarrow>
     Ticket.id t \<noteq> None \<and> Ticket.title t \<noteq> None \<and> Ticket.description t \<noteq> None
     \<and> Ticket.status t \<noteq> None"

definition all_non_null :: "Session \<Rightarrow> bool" where
  "all_non_null db \<longleftrightarrow> list_all non_null (tickets db)"

text \<open>
  What every store reached from the empty one satisfies: each row has a primary key
  that the store has already handed out, and no two rows share one.
\<close>

definition store_ok :: "Session \<Rightarrow> bool" where
  "store_ok db \<longleftrightarrow>
     list_all (\<lambda>row. case Ticket.id row of None \<Rightarrow> False | Some k \<Rightarrow> k < next_id db) (tickets db)
     \<and> distinct (map Ticket.id (tickets db))"

text \<open>
  An update that names a field and gives \<^verbatim>\<open>null\<close> for it.
\<close>

definition explicit_null :: "TicketUpdate \<Rightarrow> bool" where
  "explicit_null u \<longleftrightarrow>
     (''title'' \<in> fields_set u \<and> TicketUpdate.title u = None)
     \<or> (''description'' \<in> fields_set u \<and> TicketUpdate.description u = None)
     \<or> (''status'' \<in> fields_set u \<and> TicketUpdate.status u = None)"

section \<open>Auxiliary facts\<close>

subsection \<open>Lookup by primary key\<close>

lemma find_append_pk:
  "find P (xs @ ys) = (case find P xs of None \<Rightarrow> find P ys | Some x \<Rightarrow> Some x)"
  by (induction xs) simp_all

lemma find_pk_id: "find (\<lambda>row. Ticket.id row = Some k) rows = Some t \<Longrightarrow> Ticket.id t = Some k"
  by (induction rows) (auto split: if_splits)

lemma find_pk_mem: "find (\<lambda>row. Ticket.id row = Some k) rows = Some t \<Longrightarrow> t \<in> set rows"
  by (induction rows) (auto split: if_splits)

lemma find_pk_absent:
  "Some k \<notin> Ticket.id ` set rows \<Longrightarrow> find (\<lambda>row. Ticket.id row = Some k) rows = None"
  by (induction rows) auto

lemma find_pk_after_update:
  "find (\<lambda>row. Ticket.id row = Some k) rows = Some t \<Longrightarrow> Ticket.id obj = Some k \<Longrightarrow>
   find (\<lambda>row. Ticket.id row = Some k)
     (map (\<lambda>row. if Ticket.id row = Some k then obj else row) rows) = Some obj"
  by (induction rows) (auto split: if_splits)

lemma find_pk_after_delete:
  "find (\<lambda>row. Ticket.id row = Some k) (filter (\<lambda>row. Ticket.id row \<noteq> Some k) rows) = None"
  by (induction rows) auto

lemma get_ticket_id: "get_ticket db i = Some t \<Longrightarrow> Ticket.id t = Some i"
  unfolding get_ticket_def query_filter_id_first_def by (rule find_pk_id)

subsection \<open>Attribute assignment\<close>

lemma setattr_id: "Ticket.id (setattr obj field v) = Ticket.id obj"
  by (simp add: setattr_def)

lemma foldl_setattr_id:
  "Ticket.id (foldl (\<lambda>obj (field, v). setattr obj field v) obj kvs) = Ticket.id obj"
  by (induction kvs arbitrary: obj) (auto simp: setattr_id)

lemma Ticket_init_dump:
  "Ticket_init (TicketCreate_model_dump ticket) =
     \<lparr>Ticket.id = None, Ticket.title = Some (TicketBase.title ticket),
      Ticket.description = Some (TicketBase.description ticket), Ticket.status = None\<rparr>"
  by (simp add: Ticket_init_def TicketCreate_model_dump_def setattr_def)

text \<open>The loop of \<^verbatim>\<open>update_ticket\<close>, field by field.\<close>

lemma setattr_loop:
  "foldl (\<lambda>obj (field, v). setattr obj field v) t (TicketUpdate_model_dump_exclude_unset u) =
     t\<lparr>Ticket.title := (if ''title'' \<in> fields_set u then TicketUpdate.title u else Ticket.title t),
       Ticket.description :=
         (if ''description'' \<in> fields_set u then TicketUpdate.description u
          else Ticket.description t),
       Ticket.status :=
         (if ''status'' \<in> fields_set u then TicketUpdate.status u else Ticket.status t)\<rparr>"
  by (simp add: TicketUpdate_model_dump_exclude_unset_def setattr_def)

subsection \<open>The service functions, unfolded\<close>

lemma create_ticket_unfold:
  "create_ticket db ticket =
     (let new = \<lparr>Ticket.id = Some (next_id db), Ticket.title = Some (TicketBase.title ticket),
                 Ticket.description = Some (TicketBase.description ticket),
                 Ticket.status = Some ''open''\<rparr>;
          db' = db\<lparr>tickets := tickets db @ [new], next_id := next_id db + 1\<rparr>
      in (refresh db' new, db'))"
  by (simp add: create_ticket_def Ticket_init_dump add_commit_def status_default_def Let_def)

lemma store_ok_fresh: "store_ok db \<Longrightarrow> Some (next_id db) \<notin> Ticket.id ` set (tickets db)"
  by (auto simp: store_ok_def list_all_iff split: option.splits)

lemma create_ticket_ok:
  assumes "store_ok db"
  shows "create_ticket db ticket =
     (let new = \<lparr>Ticket.id = Some (next_id db), Ticket.title = Some (TicketBase.title ticket),
                 Ticket.description = Some (TicketBase.description ticket),
                 Ticket.status = Some ''open''\<rparr>
      in (Inr new, db\<lparr>tickets := tickets db @ [new], next_id := next_id db + 1\<rparr>))"
  using find_pk_absent [OF store_ok_fresh [OF assms]]
  by (simp add: create_ticket_unfold refresh_def Let_def find_append_pk)

lemma update_ticket_unfold:
  assumes "get_ticket db i = Some t"
  shows "update_ticket db i u =
     (let t' = foldl (\<lambda>obj (field, v). setattr obj field v) t
                 (TicketUpdate_model_dump_exclude_unset u)
      in (Inr (Some t'), commit_dirty db t'))"
proof -
  let ?t' = "foldl (\<lambda>obj (field, v). setattr obj field v) t
               (TicketUpdate_model_dump_exclude_unset u)"
  from assms have f: "find (\<lambda>row. Ticket.id row = Some i) (tickets db) = Some t"
    by (simp add: get_ticket_def query_filter_id_first_def)
  then have "Ticket.id t = Some i" by (rule find_pk_id)
  then have id': "Ticket.id ?t' = Some i" by (simp add: foldl_setattr_id)
  from find_pk_after_update [OF f id']
  have "refresh (commit_dirty db ?t') ?t' = Inr ?t'"
    by (simp add: refresh_def commit_dirty_def id')
  with assms show ?thesis
    by (simp add: update_ticket_def Let_def)
qed

lemma store_ok_empty: "store_ok empty_store"
  by (simp add: store_ok_def empty_store_def)

lemma commit_same_row:
  "distinct (map Ticket.id rows) \<Longrightarrow> find (\<lambda>row. Ticket.id row = Some k) rows = Some t \<Longrightarrow>
   map (\<lambda>row. if Ticket.id row = Some k then t else row) rows = rows"
proof (induction rows)
  case Nil
  then show ?case by simp
next
  case (Cons r rows)
  show ?case
  proof (cases "Ticket.id r = Some k")
    case True
    with Cons.prems have "Some k \<notin> Ticket.id ` set rows" and "t = r" by auto
    then have "map (\<lambda>row. if Ticket.id row = Some k then t else row) rows = rows"
      by (intro map_idI) force
    with True \<open>t = r\<close> show ?thesis by simp
  next
    case False
    with Cons show ?thesis by simp
  qed
qed

subsection \<open>Primary keys along a run\<close>

lemma update_ticket_absent: "get_ticket db i = None \<Longrightarrow> update_ticket db i u = (Inr None, db)"
  by (simp add: update_ticket_def)

lemma update_ticket_ids:
  "map Ticket.id (tickets (snd (update_ticket db i u))) = map Ticket.id (tickets db)"
proof (cases "get_ticket db i")
  case None
  then show ?thesis by (simp add: update_ticket_absent)
next
  case (Some t)
  let ?t' = "foldl (\<lambda>obj (field, v). setattr obj field v) t
               (TicketUpdate_model_dump_exclude_unset u)"
  have "Ticket.id ?t' = Some i"
    using get_ticket_id [OF Some] by (simp add: foldl_setattr_id)
  then show ?thesis
    by (simp add: update_ticket_unfold [OF Some] Let_def commit_dirty_def comp_def)
qed

lemma update_ticket_next_id: "next_id (snd (update_ticket db i u)) = next_id db"
proof (cases "get_ticket db i")
  case None
  then show ?thesis by (simp add: update_ticket_absent)
next
  case (Some t)
  then show ?thesis
    by (simp add: update_ticket_unfold [OF Some] Let_def commit_dirty_def)
qed

lemma delete_ticket_ids:
  "map Ticket.id (tickets (snd (delete_ticket db i))) =
     filter (\<lambda>k. k \<noteq> Some i) (map Ticket.id (tickets db))"
proof (cases "get_ticket db i")
  case None
  then have "find (\<lambda>row. Ticket.id row = Some i) (tickets db) = None"
    by (simp add: get_ticket_def query_filter_id_first_def)
  then have "\<forall>row \<in> set (tickets db). Ticket.id row \<noteq> Some i"
    by (simp add: find_None_iff)
  then have "filter (\<lambda>k. k \<noteq> Some i) (map Ticket.id (tickets db)) = map Ticket.id (tickets db)"
    by (intro filter_True) auto
  with None show ?thesis by (simp add: delete_ticket_def)
next
  case (Some t)
  with get_ticket_id [OF Some] show ?thesis
    by (simp add: delete_ticket_def delete_commit_def filter_map comp_def)
qed

lemma delete_ticket_next_id: "next_id (snd (delete_ticket db i)) = next_id db"
  by (simp add: delete_ticket_def delete_commit_def split: option.splits)

lemma create_ticket_ids:
  "map Ticket.id (tickets (snd (create_ticket db ticket))) =
     map Ticket.id (tickets db) @ [Some (next_id db)]"
  by (simp add: create_ticket_unfold Let_def)

lemma create_ticket_next_id: "next_id (snd (create_ticket db ticket)) = next_id db + 1"
  by (simp add: create_ticket_unfold Let_def)

lemma apply_op_next_id: "next_id db \<le> next_id (apply_op db x)"
  by (cases x) (simp_all add: create_ticket_next_id update_ticket_next_id delete_ticket_next_id)

text \<open>\<open>store_ok\<close> in terms of the primary keys alone.\<close>

lemma store_ok_ids:
  "store_ok db \<longleftrightarrow>
     (\<forall>k \<in> set (map Ticket.id (tickets db)). \<exists>j. k = Some j \<and> j < next_id db)
     \<and> distinct (map Ticket.id (tickets db))"
  by (auto simp: store_ok_def list_all_iff split: option.splits)

lemma store_ok_apply_op: "store_ok db \<Longrightarrow> store_ok (apply_op db x)"
proof (cases x)
  case (Create ticket)
  assume "store_ok db"
  then show ?thesis
    unfolding store_ok_ids Create apply_op.simps create_ticket_ids create_ticket_next_id
    by fastforce
next
  case (Update i u)
  assume "store_ok db"
  then show ?thesis
    unfolding store_ok_ids Update apply_op.simps update_ticket_ids update_ticket_next_id .
next
  case (Delete i)
  assume "store_ok db"
  then show ?thesis
    unfolding store_ok_ids Delete apply_op.simps delete_ticket_ids delete_ticket_next_id
    by auto
qed

lemma store_ok_run: "store_ok db \<Longrightarrow> store_ok (run db xs)"
  by (induction xs arbitrary: db) (simp_all add: store_ok_apply_op)

lemma store_ok_reachable: "store_ok (run empty_store xs)"
  by (rule store_ok_run [OF store_ok_empty])

lemma create_ticket_returns_next_id:
  "(case fst (create_ticket db ticket) of
      Inr t \<Rightarrow> (case Ticket.id t of Some k \<Rightarrow> [k] | None \<Rightarrow> [])
    | Inl e \<Rightarrow> []) = [next_id db]"
proof -
  let ?new = "\<lparr>Ticket.id = Some (next_id db), Ticket.title = Some (TicketBase.title ticket),
               Ticket.description = Some (TicketBase.description ticket),
               Ticket.status = Some ''open''\<rparr>"
  obtain t where "find (\<lambda>row. Ticket.id row = Some (next_id db)) (tickets db @ [?new]) = Some t"
    by (cases "find (\<lambda>row. Ticket.id row = Some (next_id db)) (tickets db)")
       (simp_all add: find_append_pk)
  moreover from this have "Ticket.id t = Some (next_id db)" by (rule find_pk_id)
  ultimately show ?thesis
    by (simp add: create_ticket_unfold Let_def refresh_def)
qed

lemma created_ids_lower: "k \<in> set (created_ids db xs) \<Longrightarrow> next_id db \<le> k"
proof (induction xs arbitrary: db)
  case Nil
  then show ?case by simp
next
  case (Cons x xs)
  show ?case
  proof (cases x)
    case (Create ticket)
    with Cons.prems have "k = next_id db \<or> k \<in> set (created_ids (apply_op db x) xs)"
      by (simp add: create_ticket_returns_next_id)
    then show ?thesis
    proof
      assume "k = next_id db" then show ?thesis by simp
    next
      assume "k \<in> set (created_ids (apply_op db x) xs)"
      then have "next_id (apply_op db x) \<le> k" by (rule Cons.IH)
      with apply_op_next_id [of db x] show ?thesis by simp
    qed
  next
    case (Update i u)
    with Cons.prems have "k \<in> set (created_ids (apply_op db x) xs)" by simp
    then have "next_id (apply_op db x) \<le> k" by (rule Cons.IH)
    with apply_op_next_id [of db x] show ?thesis by simp
  next
    case (Delete i)
    with Cons.prems have "k \<in> set (created_ids (apply_op db x) xs)" by simp
    then have "next_id (apply_op db x) \<le> k" by (rule Cons.IH)
    with apply_op_next_id [of db x] show ?thesis by simp
  qed
qed

lemma created_ids_distinct: "distinct (created_ids db xs)"
proof (induction xs arbitrary: db)
  case Nil
  then show ?case by simp
next
  case (Cons x xs)
  show ?case
  proof (cases x)
    case (Create ticket)
    have "next_id db \<notin> set (created_ids (apply_op db (Create ticket)) xs)"
    proof
      assume "next_id db \<in> set (created_ids (apply_op db (Create ticket)) xs)"
      then have "next_id (apply_op db (Create ticket)) \<le> next_id db" by (rule created_ids_lower)
      then show False by (simp add: create_ticket_next_id)
    qed
    with Cons.IH [of "apply_op db (Create ticket)"] Create show ?thesis
      by (simp add: create_ticket_returns_next_id)
  next
    case (Update i u)
    with Cons.IH show ?thesis by simp
  next
    case (Delete i)
    with Cons.IH show ?thesis by simp
  qed
qed

subsection \<open>Validated updates and the non-null invariant\<close>

lemma TicketUpdate_validate_fields:
  assumes "TicketUpdate_validate request_body = Inr u"
  shows "validate_optional_str (request_body ''title'') = Inr (TicketUpdate.title u)"
    and "validate_optional_str (request_body ''description'') = Inr (TicketUpdate.description u)"
    and "validate_optional_str (request_body ''status'') = Inr (TicketUpdate.status u)"
    and "fields_set u = {field \<in> {''title'', ''description'', ''status''}. request_body field \<noteq> None}"
  using assms by (auto simp: TicketUpdate_validate_def split: sum.splits)

lemma run_create_null_update:
  "run empty_store
     [Create \<lparr>TicketBase.title = ''Bug'', TicketBase.description = ''Fix crash''\<rparr>,
      Update 1 \<lparr>TicketUpdate.title = None, TicketUpdate.description = None,
                TicketUpdate.status = None, fields_set = {''status''}\<rparr>] =
   \<lparr>tickets = [\<lparr>Ticket.id = Some 1, Ticket.title = Some ''Bug'',
                 Ticket.description = Some ''Fix crash'', Ticket.status = None\<rparr>],
    next_id = 2\<rparr>"
proof -
  let ?row = "\<lparr>Ticket.id = Some 1, Ticket.title = Some ''Bug'',
               Ticket.description = Some ''Fix crash'', Ticket.status = Some ''open''\<rparr>"
  have c: "create_ticket empty_store \<lparr>TicketBase.title = ''Bug'', TicketBase.description = ''Fix crash''\<rparr>
        = (Inr ?row, \<lparr>tickets = [?row], next_id = 2\<rparr>)"
    by (simp add: create_ticket_ok [OF store_ok_empty] Let_def) (simp add: empty_store_def)
  have g: "get_ticket \<lparr>tickets = [?row], next_id = 2\<rparr> 1 = Some ?row"
    by (simp add: get_ticket_def query_filter_id_first_def)
  show ?thesis
    by (simp add: c update_ticket_unfold [OF g] setattr_loop Let_def commit_dirty_def)
qed

lemma non_null_create: "all_non_null db \<Longrightarrow> all_non_null (apply_op db (Create ticket))"
  by (simp add: all_non_null_def create_ticket_unfold Let_def non_null_def)

lemma non_null_delete: "all_non_null db \<Longrightarrow> all_non_null (apply_op db (Delete i))"
  by (auto simp: all_non_null_def delete_ticket_def delete_commit_def list_all_iff
      split: option.splits)

lemma non_null_update:
  assumes "all_non_null db" and "\<not> explicit_null u"
  shows "all_non_null (apply_op db (Update i u))"
proof (cases "get_ticket db i")
  case None
  with assms(1) show ?thesis by (simp add: update_ticket_absent)
next
  case (Some t)
  then have "find (\<lambda>row. Ticket.id row = Some i) (tickets db) = Some t"
    by (simp add: get_ticket_def query_filter_id_first_def)
  then have "t \<in> set (tickets db)" by (rule find_pk_mem)
  with assms(1) have "non_null t" by (simp add: all_non_null_def list_all_iff)
  with assms(2) have "non_null (foldl (\<lambda>obj (field, v). setattr obj field v) t
      (TicketUpdate_model_dump_exclude_unset u))"
    by (auto simp: setattr_loop non_null_def explicit_null_def)
  with assms(1) show ?thesis
    by (auto simp: update_ticket_unfold [OF Some] Let_def commit_dirty_def all_non_null_def
        list_all_iff)
qed

text \<open>
  What deletion does for every existing \<^verbatim>\<open>id\<close>: the service function and the route
  function return the entity as the table held it and drop the rows of that key, after
  which the \<^verbatim>\<open>id\<close> is not found.
\<close>

lemma delete_ticket_existing:
  assumes "get_ticket db i = Some t"
  shows "delete_ticket db i =
           (Some t, db\<lparr>tickets := filter (\<lambda>row. Ticket.id row \<noteq> Some i) (tickets db)\<rparr>)
     \<and> delete i db =
           (Inr t, db\<lparr>tickets := filter (\<lambda>row. Ticket.id row \<noteq> Some i) (tickets db)\<rparr>)
     \<and> t \<in> set (tickets db)
     \<and> Some i \<notin> Ticket.id ` set (tickets (snd (delete_ticket db i)))
     \<and> get_ticket (snd (delete_ticket db i)) i = None
     \<and> GET_ticket i (snd (delete_ticket db i)) =
          \<lparr>status_code = 404, body = DetailJSON ''Ticket not found''\<rparr>"
proof -
  from assms have f: "find (\<lambda>row. Ticket.id row = Some i) (tickets db) = Some t"
    by (simp add: get_ticket_def query_filter_id_first_def)
  have idt: "Ticket.id t = Some i" using assms by (rule get_ticket_id)
  have d: "delete_ticket db i =
      (Some t, db\<lparr>tickets := filter (\<lambda>row. Ticket.id row \<noteq> Some i) (tickets db)\<rparr>)"
    using assms by (simp add: delete_ticket_def delete_commit_def idt)
  have m: "t \<in> set (tickets db)" using f by (rule find_pk_mem)
  have g: "get_ticket (snd (delete_ticket db i)) i = None"
    by (simp add: d get_ticket_def query_filter_id_first_def find_pk_after_delete)
  have n: "Some i \<notin> Ticket.id ` set (tickets (snd (delete_ticket db i)))"
    by (auto simp: d)
  from d m g n show ?thesis by (simp add: GET_ticket_def get_def delete_def)
qed

lemma DELETE_ticket_non_null:
  assumes "get_ticket db i = Some t" and "non_null t"
  shows "\<exists>out. TicketOut_from_attributes t = Inr out
           \<and> DELETE_ticket i db = (\<lparr>status_code = 200, body = TicketJSON out\<rparr>,
                                     snd (delete_ticket db i))"
  using assms
  by (auto simp: DELETE_ticket_def delete_def delete_ticket_def TicketOut_from_attributes_def
      non_null_def)

text \<open>After the null update the list route fails as well.\<close>

lemma GET_tickets_after_null_update:
  "GET_tickets (run empty_store
     [Create \<lparr>TicketBase.title = ''Bug'', TicketBase.description = ''Fix crash''\<rparr>,
      Update 1 \<lparr>TicketUpdate.title = None, TicketUpdate.description = None,
                TicketUpdate.status = None, fields_set = {''status''}\<rparr>]) =
   \<lparr>status_code = 500, body = InternalServerError\<rparr>"
  unfolding run_create_null_update
  by (simp add: GET_tickets_def list_all_route_def get_all_tickets_def query_all_def
      TicketOut_from_attributes_def)

section \<open>The claims\<close>

text \<open>
  C1. For every valid creation input (a title and a description), \<^verbatim>\<open>create_ticket\<close>
  builds a new entity with status \<^verbatim>\<open>"open"\<close>, appends it to the table and returns the
  persisted entity, whose \<^verbatim>\<open>id\<close> is the integer the store assigned; a
  \<^verbatim>\<open>POST /tickets/\<close> whose body validates to that input answers 201 with that entity,
  whose status is \<^verbatim>\<open>"open"\<close>. The store is any store reachable from the empty one
  (\<open>store_ok\<close>).
\<close>

theorem create_ticket_persists_open_entity:
  assumes "store_ok db"
  shows "let new = \<lparr>Ticket.id = Some (next_id db), Ticket.title = Some (TicketBase.title ticket),
                    Ticket.description = Some (TicketBase.description ticket),
                    Ticket.status = Some ''open''\<rparr>;
             db' = db\<lparr>tickets := tickets db @ [new], next_id := next_id db + 1\<rparr>
         in create_ticket db ticket = (Inr new, db')
            \<and> get_ticket db' (next_id db) = Some new
            \<and> (TicketCreate_validate request_body = Inr ticket \<longrightarrow>
                 POST_tickets request_body db =
                   (\<lparr>status_code = 201,
                     body = TicketJSON \<lparr>TicketBase.title = TicketBase.title ticket,
                                        TicketBase.description = TicketBase.description ticket,
                                        TicketOut.id = next_id db, TicketOut.status = ''open''\<rparr>\<rparr>,
                    db'))"
proof -
  have absent: "find (\<lambda>row. Ticket.id row = Some (next_id db)) (tickets db) = None"
    using assms by (intro find_pk_absent store_ok_fresh)
  show ?thesis
    by (simp add: Let_def create_ticket_ok [OF assms] get_ticket_def query_filter_id_first_def
        find_append_pk absent POST_tickets_def create_def TicketOut_from_attributes_def)
qed

theorem create_ticket_persists_open_entity_witness:
  "store_ok empty_store
   \<and> create_ticket empty_store \<lparr>TicketBase.title = ''Bug'', TicketBase.description = ''Fix crash''\<rparr> =
       (Inr \<lparr>Ticket.id = Some 1, Ticket.title = Some ''Bug'',
             Ticket.description = Some ''Fix crash'', Ticket.status = Some ''open''\<rparr>,
        \<lparr>tickets = [\<lparr>Ticket.id = Some 1, Ticket.title = Some ''Bug'',
                      Ticket.description = Some ''Fix crash'', Ticket.status = Some ''open''\<rparr>],
         next_id = 2\<rparr>)
   \<and> fst (POST_tickets [''title'' \<mapsto> JString ''Bug'', ''description'' \<mapsto> JString ''Fix crash'']
            empty_store) =
       \<lparr>status_code = 201,
        body = TicketJSON \<lparr>TicketBase.title = ''Bug'', TicketBase.description = ''Fix crash'',
                           TicketOut.id = 1, TicketOut.status = ''open''\<rparr>\<rparr>"
proof -
  have v: "TicketCreate_validate [''title'' \<mapsto> JString ''Bug'', ''description'' \<mapsto> JString ''Fix crash'']
             = Inr \<lparr>TicketBase.title = ''Bug'', TicketBase.description = ''Fix crash''\<rparr>"
    by (simp add: TicketCreate_validate_def)
  from create_ticket_persists_open_entity [OF store_ok_empty,
      of "\<lparr>TicketBase.title = ''Bug'', TicketBase.description = ''Fix crash''\<rparr>"
         "[''title'' \<mapsto> JString ''Bug'', ''description'' \<mapsto> JString ''Fix crash'']"] v
  show ?thesis
    by (simp add: Let_def empty_store_def store_ok_def)
qed

text \<open>
  C2. For every existing ticket and every update input, \<^verbatim>\<open>update_ticket\<close> sets exactly
  the fields the input gave and leaves the other fields of that ticket, its \<^verbatim>\<open>id\<close>
  and every other row as they were; the updated entity is what is returned and what a
  later lookup finds. In particular an update that gives only \<^verbatim>\<open>status = "closed"\<close>
  keeps title and description and returns status \<^verbatim>\<open>"closed"\<close>, and an update with an
  empty body changes no field (and, in a reachable store, no row).
\<close>

theorem update_ticket_applies_given_fields_only:
  assumes "get_ticket db i = Some t"
  shows "let t' = t\<lparr>Ticket.title :=
                     (if ''title'' \<in> fields_set u then TicketUpdate.title u else Ticket.title t),
                   Ticket.description :=
                     (if ''description'' \<in> fields_set u then TicketUpdate.description u
                      else Ticket.description t),
                   Ticket.status :=
                     (if ''status'' \<in> fields_set u then TicketUpdate.status u else Ticket.status t)\<rparr>;
             db' = db\<lparr>tickets := map (\<lambda>row. if Ticket.id row = Some i then t' else row) (tickets db)\<rparr>
         in update_ticket db i u = (Inr (Some t'), db')
            \<and> get_ticket db' i = Some t'
            \<and> Ticket.id t' = Ticket.id t
            \<and> (fields_set u = {''status''} \<and> TicketUpdate.status u = Some ''closed'' \<longrightarrow>
                 Ticket.title t' = Ticket.title t \<and> Ticket.description t' = Ticket.description t
                 \<and> Ticket.status t' = Some ''closed'')
            \<and> (fields_set u = {} \<longrightarrow> t' = t \<and> (store_ok db \<longrightarrow> db' = db))"
proof -
  let ?t' = "t\<lparr>Ticket.title :=
                 (if ''title'' \<in> fields_set u then TicketUpdate.title u else Ticket.title t),
               Ticket.description :=
                 (if ''description'' \<in> fields_set u then TicketUpdate.description u
                  else Ticket.description t),
               Ticket.status :=
                 (if ''status'' \<in> fields_set u then TicketUpdate.status u else Ticket.status t)\<rparr>"
  let ?db' = "db\<lparr>tickets := map (\<lambda>row. if Ticket.id row = Some i then ?t' else row) (tickets db)\<rparr>"
  from assms have f: "find (\<lambda>row. Ticket.id row = Some i) (tickets db) = Some t"
    by (simp add: get_ticket_def query_filter_id_first_def)
  have idt: "Ticket.id t = Some i" using assms by (rule get_ticket_id)
  then have idt': "Ticket.id ?t' = Some i" by simp
  have 1: "update_ticket db i u = (Inr (Some ?t'), ?db')"
    by (simp add: update_ticket_unfold [OF assms] setattr_loop Let_def commit_dirty_def idt)
  have 2: "get_ticket ?db' i = Some ?t'"
    using find_pk_after_update [OF f idt']
    by (simp add: get_ticket_def query_filter_id_first_def)
  have 3: "Ticket.id ?t' = Ticket.id t" by simp
  have 4: "fields_set u = {''status''} \<and> TicketUpdate.status u = Some ''closed'' \<longrightarrow>
        Ticket.title ?t' = Ticket.title t \<and> Ticket.description ?t' = Ticket.description t
        \<and> Ticket.status ?t' = Some ''closed''"
    by simp
  have 5: "fields_set u = {} \<longrightarrow> ?t' = t \<and> (store_ok db \<longrightarrow> ?db' = db)"
  proof (intro impI conjI)
    assume e: "fields_set u = {}"
    then show same: "?t' = t" by simp
    assume "store_ok db"
    then have "distinct (map Ticket.id (tickets db))" by (simp add: store_ok_def)
    from commit_same_row [OF this f] show "?db' = db" unfolding same by simp
  qed
  from 1 2 3 4 5 show ?thesis unfolding Let_def by blast
qed


theorem update_ticket_applies_given_fields_only_witness:
  "get_ticket \<lparr>tickets = [\<lparr>Ticket.id = Some 1, Ticket.title = Some ''Bug'',
                              Ticket.description = Some ''Fix crash'', Ticket.status = Some ''open''\<rparr>],
                 next_id = 2\<rparr> 1 =
     Some \<lparr>Ticket.id = Some 1, Ticket.title = Some ''Bug'',
           Ticket.description = Some ''Fix crash'', Ticket.status = Some ''open''\<rparr>
   \<and> update_ticket \<lparr>tickets = [\<lparr>Ticket.id = Some 1, Ticket.title = Some ''Bug'',
                                  Ticket.description = Some ''Fix crash'', Ticket.status = Some ''open''\<rparr>],
                     next_id = 2\<rparr> 1
         \<lparr>TicketUpdate.title = None, TicketUpdate.description = None,
          TicketUpdate.status = Some ''closed'', fields_set = {''status''}\<rparr> =
       (Inr (Some \<lparr>Ticket.id = Some 1, Ticket.title = Some ''Bug'',
                   Ticket.description = Some ''Fix crash'', Ticket.status = Some ''closed''\<rparr>),
        \<lparr>tickets = [\<lparr>Ticket.id = Some 1, Ticket.title = Some ''Bug'',
                      Ticket.description = Some ''Fix crash'', Ticket.status = Some ''closed''\<rparr>],
         next_id = 2\<rparr>)"
proof -
  have g: "get_ticket \<lparr>tickets = [\<lparr>Ticket.id = Some 1, Ticket.title = Some ''Bug'',
                              Ticket.description = Some ''Fix crash'', Ticket.status = Some ''open''\<rparr>],
                 next_id = 2\<rparr> 1 =
     Some \<lparr>Ticket.id = Some 1, Ticket.title = Some ''Bug'',
           Ticket.description = Some ''Fix crash'', Ticket.status = Some ''open''\<rparr>"
    by (simp add: get_ticket_def query_filter_id_first_def)
  from update_ticket_applies_given_fields_only [OF g,
      of "\<lparr>TicketUpdate.title = None, TicketUpdate.description = None,
           TicketUpdate.status = Some ''closed'', fields_set = {''status''}\<rparr>"] g
  show ?thesis by (simp add: Let_def)
qed

text \<open>
  C3. For every \<^verbatim>\<open>id\<close> that no row carries, \<^verbatim>\<open>get_ticket\<close> returns \<^verbatim>\<open>None\<close> as a
  value, and the routes for GET, PUT and DELETE on \<^verbatim>\<open>/tickets/{id}\<close> each answer 404
  with the body \<^verbatim>\<open>{"detail": "Ticket not found"}\<close> and leave the store as it was. The
  route function \<^verbatim>\<open>update\<close> does so for every update input; at the level of the request
  that is every body the \<^verbatim>\<open>TicketUpdate\<close> schema accepts.
\<close>

theorem absent_id_gives_not_found:
  assumes "Some i \<notin> Ticket.id ` set (tickets db)"
  shows "get_ticket db i = None
     \<and> GET_ticket i db = \<lparr>status_code = 404, body = DetailJSON ''Ticket not found''\<rparr>
     \<and> update i u db = (Inl (HTTPException 404 ''Ticket not found''), db)
     \<and> respond 200 (fst (update i u db)) =
          \<lparr>status_code = 404, body = DetailJSON ''Ticket not found''\<rparr>
     \<and> (TicketUpdate_validate request_body = Inr u \<longrightarrow>
          PUT_ticket i request_body db =
            (\<lparr>status_code = 404, body = DetailJSON ''Ticket not found''\<rparr>, db))
     \<and> DELETE_ticket i db = (\<lparr>status_code = 404, body = DetailJSON ''Ticket not found''\<rparr>, db)"
proof -
  have g: "get_ticket db i = None"
    using assms by (simp add: get_ticket_def query_filter_id_first_def find_pk_absent)
  then show ?thesis
    by (simp add: GET_ticket_def get_def update_def update_ticket_def PUT_ticket_def
        DELETE_ticket_def delete_def delete_ticket_def)
qed

theorem absent_id_gives_not_found_witness:
  "Some 7 \<notin> Ticket.id ` set (tickets empty_store)
   \<and> get_ticket empty_store 7 = None
   \<and> GET_ticket 7 empty_store = \<lparr>status_code = 404, body = DetailJSON ''Ticket not found''\<rparr>
   \<and> PUT_ticket 7 [''status'' \<mapsto> JString ''closed''] empty_store =
       (\<lparr>status_code = 404, body = DetailJSON ''Ticket not found''\<rparr>, empty_store)
   \<and> DELETE_ticket 7 empty_store =
       (\<lparr>status_code = 404, body = DetailJSON ''Ticket not found''\<rparr>, empty_store)"
proof -
  have a: "Some 7 \<notin> Ticket.id ` set (tickets empty_store)"
    by (simp add: empty_store_def)
  have v: "TicketUpdate_validate [''status'' \<mapsto> JString ''closed''] =
         Inr \<lparr>TicketUpdate.title = None, TicketUpdate.description = None,
              TicketUpdate.status = Some ''closed'', fields_set = {''status''}\<rparr>"
    by (auto simp: TicketUpdate_validate_def)
  from absent_id_gives_not_found [OF a,
      of "\<lparr>TicketUpdate.title = None, TicketUpdate.description = None,
           TicketUpdate.status = Some ''closed'', fields_set = {''status''}\<rparr>"
         "[''status'' \<mapsto> JString ''closed'']"] a v
  show ?thesis by simp
qed

text \<open>
  C4. Every persisted ticket has a non-null \<^verbatim>\<open>id\<close>, title, description and status, in
  every store reached from the empty one by create, update and delete. The code does
  not keep this: the empty store and the store after one creation satisfy it, and the
  update that the body \<^verbatim>\<open>{"status": null}\<close> validates to breaks it. (Creation, deletion
  and updates without an explicit null keep it: \<open>non_null_create\<close>,
  \<open>non_null_delete\<close>, \<open>non_null_update\<close>.)
\<close>

theorem null_update_breaks_non_null_invariant:
  "TicketUpdate_validate [''status'' \<mapsto> JNull] =
     Inr \<lparr>TicketUpdate.title = None, TicketUpdate.description = None,
          TicketUpdate.status = None, fields_set = {''status''}\<rparr>
   \<and> all_non_null empty_store
   \<and> all_non_null (run empty_store
        [Create \<lparr>TicketBase.title = ''Bug'', TicketBase.description = ''Fix crash''\<rparr>])
   \<and> \<not> all_non_null (run empty_store
        [Create \<lparr>TicketBase.title = ''Bug'', TicketBase.description = ''Fix crash''\<rparr>,
         Update 1 \<lparr>TicketUpdate.title = None, TicketUpdate.description = None,
                   TicketUpdate.status = None, fields_set = {''status''}\<rparr>])"
proof -
  have v: "TicketUpdate_validate [''status'' \<mapsto> JNull] =
     Inr \<lparr>TicketUpdate.title = None, TicketUpdate.description = None,
          TicketUpdate.status = None, fields_set = {''status''}\<rparr>"
    by (auto simp: TicketUpdate_validate_def)
  have e: "all_non_null empty_store" by (simp add: all_non_null_def empty_store_def)
  have c: "all_non_null (run empty_store
        [Create \<lparr>TicketBase.title = ''Bug'', TicketBase.description = ''Fix crash''\<rparr>])"
    using non_null_create [OF e] by simp
  have n: "\<not> all_non_null (run empty_store
        [Create \<lparr>TicketBase.title = ''Bug'', TicketBase.description = ''Fix crash''\<rparr>,
         Update 1 \<lparr>TicketUpdate.title = None, TicketUpdate.description = None,
                   TicketUpdate.status = None, fields_set = {''status''}\<rparr>])"
    unfolding run_create_null_update by (simp add: all_non_null_def non_null_def)
  from v e c n show ?thesis by blast
qed

text \<open>
  C5. For every existing \<^verbatim>\<open>id\<close>, deleting removes the record and returns the entity
  with the values it had just before, and a later get on that \<^verbatim>\<open>id\<close> is not found
  (404 at the route). The service function \<^verbatim>\<open>delete_ticket\<close> and the route function
  \<^verbatim>\<open>delete\<close> do so (\<open>delete_ticket_existing\<close>), and the route answers with the
  entity when no attribute of it is null (\<open>DELETE_ticket_non_null\<close>). The route does
  not do so for every existing ticket: after a creation and the update
  \<^verbatim>\<open>{"status": null}\<close>, ticket 1 exists, \<^verbatim>\<open>delete_ticket\<close> returns it and removes
  its row, but \<^verbatim>\<open>DELETE /tickets/1\<close> answers 500 without the entity, and from then on
  the ticket is not found, so it is never returned.
\<close>

theorem delete_route_never_returns_null_status_ticket:
  "get_ticket (run empty_store
        [Create \<lparr>TicketBase.title = ''Bug'', TicketBase.description = ''Fix crash''\<rparr>,
         Update 1 \<lparr>TicketUpdate.title = None, TicketUpdate.description = None,
                   TicketUpdate.status = None, fields_set = {''status''}\<rparr>]) 1 =
     Some \<lparr>Ticket.id = Some 1, Ticket.title = Some ''Bug'',
           Ticket.description = Some ''Fix crash'', Ticket.status = None\<rparr>
   \<and> delete_ticket (run empty_store
        [Create \<lparr>TicketBase.title = ''Bug'', TicketBase.description = ''Fix crash''\<rparr>,
         Update 1 \<lparr>TicketUpdate.title = None, TicketUpdate.description = None,
                   TicketUpdate.status = None, fields_set = {''status''}\<rparr>]) 1 =
       (Some \<lparr>Ticket.id = Some 1, Ticket.title = Some ''Bug'',
              Ticket.description = Some ''Fix crash'', Ticket.status = None\<rparr>,
        \<lparr>tickets = [], next_id = 2\<rparr>)
   \<and> delete 1 (run empty_store
        [Create \<lparr>TicketBase.title = ''Bug'', TicketBase.description = ''Fix crash''\<rparr>,
         Update 1 \<lparr>TicketUpdate.title = None, TicketUpdate.description = None,
                   TicketUpdate.status = None, fields_set = {''status''}\<rparr>]) =
       (Inr \<lparr>Ticket.id = Some 1, Ticket.title = Some ''Bug'',
             Ticket.description = Some ''Fix crash'', Ticket.status = None\<rparr>,
        \<lparr>tickets = [], next_id = 2\<rparr>)
   \<and> fst (DELETE_ticket 1 (run empty_store
        [Create \<lparr>TicketBase.title = ''Bug'', TicketBase.description = ''Fix crash''\<rparr>,
         Update 1 \<lparr>TicketUpdate.title = None, TicketUpdate.description = None,
                   TicketUpdate.status = None, fields_set = {''status''}\<rparr>])) =
       \<lparr>status_code = 500, body = InternalServerError\<rparr>
   \<and> GET_ticket 1 (snd (DELETE_ticket 1 (run empty_store
        [Create \<lparr>TicketBase.title = ''Bug'', TicketBase.description = ''Fix crash''\<rparr>,
         Update 1 \<lparr>TicketUpdate.title = None, TicketUpdate.description = None,
                   TicketUpdate.status = None, fields_set = {''status''}\<rparr>]))) =
       \<lparr>status_code = 404, body = DetailJSON ''Ticket not found''\<rparr>
   \<and> fst (DELETE_ticket 1 (snd (DELETE_ticket 1 (run empty_store
        [Create \<lparr>TicketBase.title = ''Bug'', TicketBase.description = ''Fix crash''\<rparr>,
         Update 1 \<lparr>TicketUpdate.title = None, TicketUpdate.description = None,
                   TicketUpdate.status = None, fields_set = {''status''}\<rparr>])))) =
       \<lparr>status_code = 404, body = DetailJSON ''Ticket not found''\<rparr>"
  unfolding run_create_null_update
  by (simp add: get_ticket_def query_filter_id_first_def DELETE_ticket_def delete_def
      delete_ticket_def delete_commit_def TicketOut_from_attributes_def GET_ticket_def get_def)

text \<open>
  C6. For every valid creation input, in a store reachable from the empty one,
  \<^verbatim>\<open>create_ticket\<close> succeeds and a following \<^verbatim>\<open>get_ticket\<close> (and the route function
  \<^verbatim>\<open>get\<close>) with the returned \<^verbatim>\<open>id\<close> yields the created entity itself: the same
  title, description and status.
\<close>

theorem create_then_get_round_trip:
  assumes "store_ok db"
  shows "\<exists>t k. fst (create_ticket db ticket) = Inr t \<and> Ticket.id t = Some k
           \<and> get_ticket (snd (create_ticket db ticket)) k = Some t
           \<and> get k (snd (create_ticket db ticket)) = Inr t
           \<and> Ticket.title t = Some (TicketBase.title ticket)
           \<and> Ticket.description t = Some (TicketBase.description ticket)
           \<and> Ticket.status t = Some ''open''"
proof -
  have absent: "find (\<lambda>row. Ticket.id row = Some (next_id db)) (tickets db) = None"
    using assms by (intro find_pk_absent store_ok_fresh)
  show ?thesis
    by (simp add: create_ticket_ok [OF assms] Let_def get_def get_ticket_def
        query_filter_id_first_def find_append_pk absent)
qed

theorem create_then_get_round_trip_witness:
  "store_ok empty_store
   \<and> (\<exists>t k. fst (create_ticket empty_store
                   \<lparr>TicketBase.title = ''Bug'', TicketBase.description = ''Fix crash''\<rparr>) = Inr t
          \<and> Ticket.id t = Some k
          \<and> get_ticket (snd (create_ticket empty_store
                   \<lparr>TicketBase.title = ''Bug'', TicketBase.description = ''Fix crash''\<rparr>)) k = Some t
          \<and> Ticket.title t = Some ''Bug'' \<and> Ticket.description t = Some ''Fix crash''
          \<and> Ticket.status t = Some ''open'')"
  using create_then_get_round_trip [OF store_ok_empty,
      of "\<lparr>TicketBase.title = ''Bug'', TicketBase.description = ''Fix crash''\<rparr>"] store_ok_empty
  by simp blast

text \<open>
  C7. A creation request whose body lacks \<^verbatim>\<open>title\<close> or lacks \<^verbatim>\<open>description\<close> fails
  the \<^verbatim>\<open>TicketCreate\<close> schema, so the route function and the service layer are never
  called: the answer is the validation error (422) and the store is unchanged.
\<close>

theorem create_rejects_missing_field:
  assumes "request_body ''title'' = None \<or> request_body ''description'' = None"
  shows "TicketCreate_validate request_body = Inl RequestValidationError
     \<and> POST_tickets request_body db =
         (\<lparr>status_code = 422, body = ValidationErrorJSON\<rparr>, db)"
proof -
  have "TicketCreate_validate request_body = Inl RequestValidationError"
    using assms by (auto simp: TicketCreate_validate_def split: sum.splits)
  then show ?thesis by (simp add: POST_tickets_def)
qed

theorem create_rejects_missing_field_witness:
  "([''title'' \<mapsto> JString ''Bug''] ''title'' = None
      \<or> [''title'' \<mapsto> JString ''Bug''] ''description'' = None)
   \<and> POST_tickets [''title'' \<mapsto> JString ''Bug''] empty_store =
       (\<lparr>status_code = 422, body = ValidationErrorJSON\<rparr>, empty_store)"
proof -
  have h: "[''title'' \<mapsto> JString ''Bug''] ''title'' = None
      \<or> [''title'' \<mapsto> JString ''Bug''] ''description'' = (None :: json option)"
    by simp
  from create_rejects_missing_field [OF h, of empty_store] h show ?thesis by blast
qed

text \<open>
  C8. No operation changes the \<^verbatim>\<open>id\<close> of a row: an update leaves the column of
  primary keys as it is, a deletion only drops the deleted key, a creation only appends
  the store's next key. The keys that the creations of any run return are pairwise
  distinct, whatever is deleted in between, and in a reachable store none of them is
  the key of a ticket that was there before.
\<close>

theorem ids_never_change_nor_return:
  "map Ticket.id (tickets (apply_op db (Update i u))) = map Ticket.id (tickets db)
   \<and> map Ticket.id (tickets (apply_op db (Delete i))) =
       filter (\<lambda>k. k \<noteq> Some i) (map Ticket.id (tickets db))
   \<and> map Ticket.id (tickets (apply_op db (Create ticket))) =
       map Ticket.id (tickets db) @ [Some (next_id db)]
   \<and> distinct (created_ids db xs)
   \<and> (store_ok db \<longrightarrow> (\<forall>k \<in> set (created_ids db xs). Some k \<notin> Ticket.id ` set (tickets db)))"
proof -
  have "Some k \<notin> Ticket.id ` set (tickets db)"
    if ok: "store_ok db" and k: "k \<in> set (created_ids db xs)" for k
  proof
    assume "Some k \<in> Ticket.id ` set (tickets db)"
    with ok have "k < next_id db" by (auto simp: store_ok_ids)
    with created_ids_lower [OF k] show False by simp
  qed
  then show ?thesis
    by (simp add: update_ticket_ids delete_ticket_ids create_ticket_ids created_ids_distinct)
qed


theorem ids_never_change_nor_return_witness:
  "store_ok \<lparr>tickets = [\<lparr>Ticket.id = Some 1, Ticket.title = Some ''Bug'',
                           Ticket.description = Some ''Fix crash'', Ticket.status = Some ''open''\<rparr>],
              next_id = 2\<rparr>
   \<and> created_ids \<lparr>tickets = [\<lparr>Ticket.id = Some 1, Ticket.title = Some ''Bug'',
                           Ticket.description = Some ''Fix crash'', Ticket.status = Some ''open''\<rparr>],
              next_id = 2\<rparr>
         [Delete 1, Create \<lparr>TicketBase.title = ''Again'', TicketBase.description = ''Later''\<rparr>] = [2]
   \<and> distinct (created_ids \<lparr>tickets = [\<lparr>Ticket.id = Some 1, Ticket.title = Some ''Bug'',
                           Ticket.description = Some ''Fix crash'', Ticket.status = Some ''open''\<rparr>],
              next_id = 2\<rparr>
         [Delete 1, Create \<lparr>TicketBase.title = ''Again'', TicketBase.description = ''Later''\<rparr>])
   \<and> Some 2 \<notin> Ticket.id ` set [\<lparr>Ticket.id = Some 1, Ticket.title = Some ''Bug'',
                           Ticket.description = Some ''Fix crash'', Ticket.status = Some ''open''\<rparr>]"
proof -
  let ?db = "\<lparr>tickets = [\<lparr>Ticket.id = Some 1, Ticket.title = Some ''Bug'',
                           Ticket.description = Some ''Fix crash'', Ticket.status = Some ''open''\<rparr>],
              next_id = 2\<rparr>"
  let ?xs = "[Delete 1, Create \<lparr>TicketBase.title = ''Again'', TicketBase.description = ''Later''\<rparr>]"
  have ok: "store_ok ?db" by (simp add: store_ok_def)
  have ids: "created_ids ?db ?xs = [2]"
    by (simp add: create_ticket_returns_next_id delete_ticket_next_id)
  from ids_never_change_nor_return [of ?db _ _ _ ?xs] ok
  have "distinct (created_ids ?db ?xs)"
    and "\<forall>k \<in> set (created_ids ?db ?xs). Some k \<notin> Ticket.id ` set (tickets ?db)"
    by blast+
  with ok ids show ?thesis by simp
qed

text \<open>
  C9. A \<^verbatim>\<open>DELETE /tickets/{id}\<close> for an existing ticket answers 200 with the deleted
  entity. The code does so for a ticket without null attribute
  (\<open>DELETE_ticket_non_null\<close>), but not for every existing ticket: after a creation and
  the update \<^verbatim>\<open>{"status": null}\<close>, ticket 1 exists, and deleting it removes the row and
  answers 500, because the entity does not fit the response model.
\<close>

theorem delete_of_null_status_ticket_answers_500:
  "get_ticket (run empty_store
        [Create \<lparr>TicketBase.title = ''Bug'', TicketBase.description = ''Fix crash''\<rparr>,
         Update 1 \<lparr>TicketUpdate.title = None, TicketUpdate.description = None,
                   TicketUpdate.status = None, fields_set = {''status''}\<rparr>]) 1 =
     Some \<lparr>Ticket.id = Some 1, Ticket.title = Some ''Bug'',
           Ticket.description = Some ''Fix crash'', Ticket.status = None\<rparr>
   \<and> DELETE_ticket 1 (run empty_store
        [Create \<lparr>TicketBase.title = ''Bug'', TicketBase.description = ''Fix crash''\<rparr>,
         Update 1 \<lparr>TicketUpdate.title = None, TicketUpdate.description = None,
                   TicketUpdate.status = None, fields_set = {''status''}\<rparr>]) =
       (\<lparr>status_code = 500, body = InternalServerError\<rparr>, \<lparr>tickets = [], next_id = 2\<rparr>)"
  unfolding run_create_null_update
  by (simp add: get_ticket_def query_filter_id_first_def DELETE_ticket_def delete_def
      delete_ticket_def delete_commit_def TicketOut_from_attributes_def)

text \<open>
  C10. For every existing ticket and every body the \<^verbatim>\<open>TicketUpdate\<close> schema accepts, a
  field that the body sets to \<^verbatim>\<open>null\<close> is written: the persisted attribute becomes
  \<^verbatim>\<open>None\<close>. A field that the body does not name keeps its value.
\<close>

theorem explicit_null_is_applied:
  assumes "get_ticket db i = Some t" and "TicketUpdate_validate request_body = Inr u"
  shows "\<exists>t'. update_ticket db i u = (Inr (Some t'), snd (PUT_ticket i request_body db))
           \<and> get_ticket (snd (PUT_ticket i request_body db)) i = Some t'
           \<and> (request_body ''title'' = Some JNull \<longrightarrow> Ticket.title t' = None)
           \<and> (request_body ''description'' = Some JNull \<longrightarrow> Ticket.description t' = None)
           \<and> (request_body ''status'' = Some JNull \<longrightarrow> Ticket.status t' = None)
           \<and> (request_body ''title'' = None \<longrightarrow> Ticket.title t' = Ticket.title t)
           \<and> (request_body ''description'' = None \<longrightarrow> Ticket.description t' = Ticket.description t)
           \<and> (request_body ''status'' = None \<longrightarrow> Ticket.status t' = Ticket.status t)"
proof -
  let ?t' = "foldl (\<lambda>obj (field, v). setattr obj field v) t
               (TicketUpdate_model_dump_exclude_unset u)"
  note v = TicketUpdate_validate_fields [OF assms(2)]
  from assms(1) have f: "find (\<lambda>row. Ticket.id row = Some i) (tickets db) = Some t"
    by (simp add: get_ticket_def query_filter_id_first_def)
  have id': "Ticket.id ?t' = Some i"
    using get_ticket_id [OF assms(1)] by (simp add: foldl_setattr_id)
  have u: "update_ticket db i u = (Inr (Some ?t'), commit_dirty db ?t')"
    by (simp add: update_ticket_unfold [OF assms(1)] Let_def)
  have p: "snd (PUT_ticket i request_body db) = commit_dirty db ?t'"
    by (simp add: PUT_ticket_def assms(2) update_def u)
  have g: "get_ticket (commit_dirty db ?t') i = Some ?t'"
    using find_pk_after_update [OF f id']
    by (simp add: get_ticket_def query_filter_id_first_def commit_dirty_def id')
  have n1: "request_body ''title'' = Some JNull \<longrightarrow> Ticket.title ?t' = None"
    using v(1) by (auto simp: setattr_loop v(4))
  have n2: "request_body ''description'' = Some JNull \<longrightarrow> Ticket.description ?t' = None"
    using v(2) by (auto simp: setattr_loop v(4))
  have n3: "request_body ''status'' = Some JNull \<longrightarrow> Ticket.status ?t' = None"
    using v(3) by (auto simp: setattr_loop v(4))
  have a1: "request_body ''title'' = None \<longrightarrow> Ticket.title ?t' = Ticket.title t"
    by (simp add: setattr_loop v(4))
  have a2: "request_body ''description'' = None \<longrightarrow> Ticket.description ?t' = Ticket.description t"
    by (simp add: setattr_loop v(4))
  have a3: "request_body ''status'' = None \<longrightarrow> Ticket.status ?t' = Ticket.status t"
    by (simp add: setattr_loop v(4))
  from u p g n1 n2 n3 a1 a2 a3 show ?thesis by (intro exI [of _ ?t']) simp
qed

theorem explicit_null_is_applied_witness:
  "get_ticket \<lparr>tickets = [\<lparr>Ticket.id = Some 1, Ticket.title = Some ''Bug'',
                              Ticket.description = Some ''Fix crash'', Ticket.status = Some ''open''\<rparr>],
                 next_id = 2\<rparr> 1 =
     Some \<lparr>Ticket.id = Some 1, Ticket.title = Some ''Bug'',
           Ticket.description = Some ''Fix crash'', Ticket.status = Some ''open''\<rparr>
   \<and> TicketUpdate_validate [''status'' \<mapsto> JNull] =
       Inr \<lparr>TicketUpdate.title = None, TicketUpdate.description = None,
            TicketUpdate.status = None, fields_set = {''status''}\<rparr>
   \<and> (\<exists>t'. get_ticket (snd (PUT_ticket 1 [''status'' \<mapsto> JNull]
                \<lparr>tickets = [\<lparr>Ticket.id = Some 1, Ticket.title = Some ''Bug'',
                              Ticket.description = Some ''Fix crash'', Ticket.status = Some ''open''\<rparr>],
                 next_id = 2\<rparr>)) 1 = Some t'
          \<and> Ticket.status t' = None \<and> Ticket.title t' = Some ''Bug''
          \<and> Ticket.description t' = Some ''Fix crash'')"
proof -
  let ?row = "\<lparr>Ticket.id = Some 1, Ticket.title = Some ''Bug'',
               Ticket.description = Some ''Fix crash'', Ticket.status = Some ''open''\<rparr>"
  let ?db = "\<lparr>tickets = [?row], next_id = 2\<rparr>"
  let ?u = "\<lparr>TicketUpdate.title = None, TicketUpdate.description = None,
            TicketUpdate.status = None, fields_set = {''status''}\<rparr>"
  have g: "get_ticket ?db 1 = Some ?row"
    by (simp add: get_ticket_def query_filter_id_first_def)
  have v: "TicketUpdate_validate [''status'' \<mapsto> JNull] = Inr ?u"
    by (auto simp: TicketUpdate_validate_def)
  from explicit_null_is_applied [OF g v]
  obtain t' where "get_ticket (snd (PUT_ticket 1 [''status'' \<mapsto> JNull] ?db)) 1 = Some t'"
    and "Ticket.status t' = None" and "Ticket.title t' = Ticket.title ?row"
    and "Ticket.description t' = Ticket.description ?row"
    by auto
  with g v show ?thesis by simp
qed

end
